theory Spec2Isabelle
  imports Main
begin

section \<open>The C preprocessor fragment used by the fixtures\<close>

text \<open>
  The three source files (\<^verbatim>\<open>bar/bar.h\<close>, \<^verbatim>\<open>foo/foo.h\<close>, \<^verbatim>\<open>src/target.c\<close>) consist of
  preprocessor directives around one declaration each, and \<^verbatim>\<open>target.c\<close> holds one function
  definition. The directives they use are \<^verbatim>\<open>#define\<close> of object-like macros,
  \<^verbatim>\<open>#undef\<close>, \<^verbatim>\<open>#ifdef\<close>/\<^verbatim>\<open>#ifndef\<close> with \<^verbatim>\<open>#else\<close>, and \<^verbatim>\<open>#include\<close>.
  A file is a list of directives; a text line is a list of preprocessing tokens.
\<close>

type_synonym token = string

datatype directive =
    Define string "token list"
  | Undef string
  | Ifdef string "directive list" "directive list"
  | Ifndef string "directive list" "directive list"
  | Include string "directive list"
  | IncludeStd string
  | Line "token list"

text \<open>
  \<open>Ifdef n thn els\<close> is \<^verbatim>\<open>#ifdef n\<close> \<open>thn\<close> \<^verbatim>\<open>#else\<close> \<open>els\<close> \<^verbatim>\<open>#endif\<close>, and \<open>Ifndef\<close>
  likewise (an absent \<^verbatim>\<open>#else\<close> group is the empty list). \<open>Include name content\<close> is an
  \<^verbatim>\<open>#include\<close> of a header of the repository, carrying the directives of the file the
  include path resolves \<open>name\<close> to. \<open>IncludeStd\<close> is an \<^verbatim>\<open>#include\<close> of a header of the
  C library.
\<close>

type_synonym macros = "(string \<times> token list) list"

datatype assert_mode = AssertChecks | AssertNoop

record pp_state =
  macros :: macros
  out_lines :: "token list list"
  assert_macro :: "assert_mode option"

datatype build_error = Redefined string | HeaderNotFound string | Undeclared string

definition is_defined :: "macros \<Rightarrow> string \<Rightarrow> bool" where
  "is_defined ms n = (map_of ms n \<noteq> None)"

text \<open>
  Macro replacement of one token, with rescanning: the replacement list of an object-like
  macro is scanned again for macro names, except for the names of the macros being
  replaced (the list \<open>hide\<close>), which are left as they are.
\<close>

function expand :: "macros \<Rightarrow> string list \<Rightarrow> token \<Rightarrow> token list" where
  "expand ms hide t =
     (case map_of ms t of
        None \<Rightarrow> [t]
      | Some body \<Rightarrow>
          if t \<in> set hide then [t]
          else concat (map (expand ms (t # hide)) body))"
  by pat_completeness auto
termination
proof (relation "measure (\<lambda>(ms, hide, t). card (fst ` set ms - set hide))")
  show "wf (measure (\<lambda>(ms, hide, t). card (fst ` set ms - set hide)))"
    by simp
next
  fix ms :: macros and hide :: "string list" and t :: token
    and body :: "token list" and x :: token
  assume lookup: "map_of ms t = Some body" and fresh: "t \<notin> set hide"
  have "t \<in> fst ` set ms"
    using lookup by (auto dest: map_of_SomeD intro: rev_image_eqI)
  then have "fst ` set ms - set (t # hide) \<subset> fst ` set ms - set hide"
    using fresh by auto
  then have "card (fst ` set ms - set (t # hide)) < card (fst ` set ms - set hide)"
    by (intro psubset_card_mono) simp_all
  then show "((ms, t # hide, x), (ms, hide, t))
      \<in> measure (\<lambda>(ms, hide, t). card (fst ` set ms - set hide))"
    by simp
qed

definition expand_line :: "macros \<Rightarrow> token list \<Rightarrow> token list" where
  "expand_line ms ts = concat (map (expand ms []) ts)"

text \<open>
  The header \<^verbatim>\<open>assert.h\<close> belongs to the C library, not to the repository. ISO C (7.2)
  fixes what matters here: each time the header is included it defines the macro
  \<^verbatim>\<open>assert\<close> anew, as a no-op when \<^verbatim>\<open>NDEBUG\<close> is defined as a macro name at that point,
  and as a check that aborts the process otherwise. The state records which of the two
  holds (\<open>assert_macro\<close>); a use of \<^verbatim>\<open>assert\<close> stays as it is in the emitted lines, and
  the embedding of the function that uses it takes the recorded expansion.
\<close>

definition std_header :: "string \<Rightarrow> pp_state \<Rightarrow> build_error + pp_state" where
  "std_header name st =
     (if name = ''assert.h''
      then Inr (st\<lparr>assert_macro :=
                  Some (if is_defined (macros st) ''NDEBUG'' then AssertNoop else AssertChecks)\<rparr>)
      else Inl (HeaderNotFound name))"

text \<open>
  Running the directives. \<^verbatim>\<open>#define\<close> of a name that is already defined with another
  replacement list is a constraint violation (ISO C 6.10.3); defining it again with the
  same list is allowed. A text line is macro-expanded and appended to the output.
\<close>

fun pp_directive :: "directive \<Rightarrow> pp_state \<Rightarrow> build_error + pp_state"
  and pp_directives :: "directive list \<Rightarrow> pp_state \<Rightarrow> build_error + pp_state" where
  "pp_directive (Define n body) st =
     (case map_of (macros st) n of
        None \<Rightarrow> Inr (st\<lparr>macros := (n, body) # macros st\<rparr>)
      | Some old \<Rightarrow> if old = body then Inr st else Inl (Redefined n))"
| "pp_directive (Undef n) st =
     Inr (st\<lparr>macros := filter (\<lambda>kv. fst kv \<noteq> n) (macros st)\<rparr>)"
| "pp_directive (Ifdef n thn els) st =
     (if is_defined (macros st) n then pp_directives thn st else pp_directives els st)"
| "pp_directive (Ifndef n thn els) st =
     (if \<not> is_defined (macros st) n then pp_directives thn st else pp_directives els st)"
| "pp_directive (Include name content) st = pp_directives content st"
| "pp_directive (IncludeStd name) st = std_header name st"
| "pp_directive (Line ts) st =
     Inr (st\<lparr>out_lines := out_lines st @ [expand_line (macros st) ts]\<rparr>)"
| "pp_directives [] st = Inr st"
| "pp_directives (d # ds) st =
     (case pp_directive d st of
        Inl e \<Rightarrow> Inl e
      | Inr st' \<Rightarrow> pp_directives ds st')"

section \<open>The source files\<close>

text \<open>
  The replacement lists of the attribute macros, token by token:
  \<^verbatim>\<open>__declspec(dllexport)\<close>, \<^verbatim>\<open>__declspec(dllimport)\<close> and
  \<^verbatim>\<open>[[gnu::visibility("default")]]\<close>.
\<close>

definition declspec_dllexport :: "token list" where
  "declspec_dllexport = [''__declspec'', ''('', ''dllexport'', '')'']"

definition declspec_dllimport :: "token list" where
  "declspec_dllimport = [''__declspec'', ''('', ''dllimport'', '')'']"

definition gnu_visibility_default :: "token list" where
  "gnu_visibility_default =
     [''['', ''['', ''gnu'', ''::'', ''visibility'', ''('',
      [CHR 0x22] @ ''default'' @ [CHR 0x22], '')'', '']'', '']'']"

text \<open>\<^verbatim>\<open>xmakers-repo/projects/bar/bar/bar.h\<close>, lines 1 to 24.\<close>

definition bar_h :: "directive list" where
  "bar_h =
     [Ifndef ''XMAKERS_BAR_H''
        [Define ''XMAKERS_BAR_H'' [],
         Ifndef ''BAR_STATIC''
           [Ifdef ''_WIN32''
              [Define ''BAR_DLL_EXPORT'' declspec_dllexport,
               Define ''BAR_DLL_IMPORT'' declspec_dllimport]
              [Define ''BAR_DLL_EXPORT'' gnu_visibility_default,
               Define ''BAR_DLL_IMPORT'' gnu_visibility_default]]
           [Define ''BAR_DLL_EXPORT'' [],
            Define ''BAR_DLL_IMPORT'' []],
         Ifdef ''BAR_BUILD''
           [Define ''BAR_PUBLIC_API'' [''BAR_DLL_EXPORT'']]
           [Define ''BAR_PUBLIC_API'' [''BAR_DLL_IMPORT'']],
         Line [''BAR_PUBLIC_API'', ''int'', ''bar'', ''('', '')'', '';'']]
        []]"

text \<open>\<^verbatim>\<open>xmakers-repo/projects/foo/foo/foo.h\<close>, lines 1 to 24.\<close>

definition foo_h :: "directive list" where
  "foo_h =
     [Ifndef ''XMAKERS_FOO_H''
        [Define ''XMAKERS_FOO_H'' [],
         Ifndef ''FOO_STATIC''
           [Ifdef ''_WIN32''
              [Define ''FOO_DLL_EXPORT'' declspec_dllexport,
               Define ''FOO_DLL_IMPORT'' declspec_dllimport]
              [Define ''FOO_DLL_EXPORT'' gnu_visibility_default,
               Define ''FOO_DLL_IMPORT'' gnu_visibility_default]]
           [Define ''FOO_DLL_EXPORT'' [],
            Define ''FOO_DLL_IMPORT'' []],
         Ifdef ''FOO_BUILD''
           [Define ''FOO_PUBLIC_API'' [''FOO_DLL_EXPORT'']]
           [Define ''FOO_PUBLIC_API'' [''FOO_DLL_IMPORT'']],
         Line [''FOO_PUBLIC_API'', ''int'', ''foo'', ''('', '')'', '';'']]
        []]"

text \<open>
  \<^verbatim>\<open>tests/packages/sht-shf-shb/src/target.c\<close>, lines 1 to 30. The definition of the
  function (lines 26 to 30) passes through the preprocessor as text lines.
\<close>

definition target_definition :: "token list list" where
  "target_definition =
     [[''int'', ''target'', ''('', '')'', ''{''],
      [''int'', ''b'', ''='', ''bar'', ''('', '')'', '';''],
      [''assert'', ''('', ''b'', ''=='', ''456'', '')'', '';''],
      [''return'', ''789'', '';''],
      [''}'']]"

definition target_c :: "directive list" where
  "target_c =
     [Undef ''NDEBUG'',
      IncludeStd ''assert.h'',
      Include ''bar/bar.h'' bar_h,
      Ifndef ''TARGET_STATIC''
        [Ifdef ''_WIN32''
           [Define ''TARGET_DLL_EXPORT'' declspec_dllexport,
            Define ''TARGET_DLL_IMPORT'' declspec_dllimport]
           [Define ''TARGET_DLL_EXPORT'' gnu_visibility_default,
            Define ''TARGET_DLL_IMPORT'' gnu_visibility_default]]
        [Define ''TARGET_DLL_EXPORT'' [],
         Define ''TARGET_DLL_IMPORT'' []],
      Ifdef ''TARGET_BUILD''
        [Define ''TARGET_PUBLIC_API'' [''TARGET_DLL_EXPORT'']]
        [Define ''TARGET_PUBLIC_API'' [''TARGET_DLL_IMPORT'']],
      Line [''TARGET_PUBLIC_API'', ''int'', ''target'', ''('', '')'', '';'']]
     @ map Line target_definition"

section \<open>Build configurations\<close>

text \<open>
  A translation unit is compiled under a configuration: the platform family (whether the
  compiler predefines \<^verbatim>\<open>_WIN32\<close>), whether the build defines \<^verbatim>\<open>NDEBUG\<close>, and for
  each library whether \<^verbatim>\<open><LIB>_STATIC\<close> and \<^verbatim>\<open><LIB>_BUILD\<close> are defined. A flag given
  on the command line is defined as \<^verbatim>\<open>1\<close>.
\<close>

record config =
  win32 :: bool
  ndebug :: bool
  bar_static :: bool
  bar_build :: bool
  foo_static :: bool
  foo_build :: bool
  target_static :: bool
  target_build :: bool

definition flag :: "string \<Rightarrow> bool \<Rightarrow> macros" where
  "flag n b = (if b then [(n, [''1''])] else [])"

definition predefined :: "config \<Rightarrow> macros" where
  "predefined c =
     flag ''_WIN32'' (win32 c) @ flag ''NDEBUG'' (ndebug c) @
     flag ''BAR_STATIC'' (bar_static c) @ flag ''BAR_BUILD'' (bar_build c) @
     flag ''FOO_STATIC'' (foo_static c) @ flag ''FOO_BUILD'' (foo_build c) @
     flag ''TARGET_STATIC'' (target_static c) @ flag ''TARGET_BUILD'' (target_build c)"

definition initial_state :: "config \<Rightarrow> pp_state" where
  "initial_state c = \<lparr>macros = predefined c, out_lines = [], assert_macro = None\<rparr>"

definition preprocess :: "directive list \<Rightarrow> config \<Rightarrow> build_error + pp_state" where
  "preprocess file c = pp_directives file (initial_state c)"

text \<open>The full expansion of a macro name after preprocessing, when the name is defined.\<close>

definition macro_value :: "string \<Rightarrow> pp_state \<Rightarrow> token list option" where
  "macro_value n st =
     (if is_defined (macros st) n then Some (expand_line (macros st) [n]) else None)"

text \<open>What a finished preprocessing run shows of its final state.\<close>

definition observe :: "(pp_state \<Rightarrow> 'a) \<Rightarrow> directive list \<Rightarrow> config \<Rightarrow> build_error + 'a" where
  "observe f file c =
     (case preprocess file c of
        Inl e \<Rightarrow> Inl e
      | Inr st \<Rightarrow> Inr (f st))"

text \<open>
  The attribute that lines 6 and 9 (export) and lines 7 and 10 (import) of each file give
  to \<^verbatim>\<open><LIB>_DLL_EXPORT\<close> and \<^verbatim>\<open><LIB>_DLL_IMPORT\<close> for dynamic linkage on a platform,
  and the replacement lists of the two macros over both linkage modes (lines 4 to 15).
\<close>

definition export_attribute :: "bool \<Rightarrow> token list" where
  "export_attribute windows =
     (if windows then declspec_dllexport else gnu_visibility_default)"

definition import_attribute :: "bool \<Rightarrow> token list" where
  "import_attribute windows =
     (if windows then declspec_dllimport else gnu_visibility_default)"

definition dll_export :: "bool \<Rightarrow> bool \<Rightarrow> token list" where
  "dll_export windows static = (if static then [] else export_attribute windows)"

definition dll_import :: "bool \<Rightarrow> bool \<Rightarrow> token list" where
  "dll_import windows static = (if static then [] else import_attribute windows)"

text \<open>
  The names a header must find undefined to mean what it says: the tokens of the
  attributes and of a declaration \<^verbatim>\<open>int f();\<close>.
\<close>

definition plain_tokens :: "token list" where
  "plain_tokens =
     declspec_dllexport @ declspec_dllimport @ gnu_visibility_default @
     [''int'', ''('', '')'', '';'']"

text \<open>The macro names a file removes with \<^verbatim>\<open>#undef\<close>, and all tokens a file mentions.\<close>

fun undefs :: "directive \<Rightarrow> string list"
  and undefs_list :: "directive list \<Rightarrow> string list" where
  "undefs (Define n body) = []"
| "undefs (Undef n) = [n]"
| "undefs (Ifdef n thn els) = undefs_list thn @ undefs_list els"
| "undefs (Ifndef n thn els) = undefs_list thn @ undefs_list els"
| "undefs (Include name content) = undefs_list content"
| "undefs (IncludeStd name) = []"
| "undefs (Line ts) = []"
| "undefs_list [] = []"
| "undefs_list (d # ds) = undefs d @ undefs_list ds"

fun mentioned :: "directive \<Rightarrow> token list"
  and mentioned_list :: "directive list \<Rightarrow> token list" where
  "mentioned (Define n body) = n # body"
| "mentioned (Undef n) = [n]"
| "mentioned (Ifdef n thn els) = n # mentioned_list thn @ mentioned_list els"
| "mentioned (Ifndef n thn els) = n # mentioned_list thn @ mentioned_list els"
| "mentioned (Include name content) = mentioned_list content"
| "mentioned (IncludeStd name) = []"
| "mentioned (Line ts) = ts"
| "mentioned_list [] = []"
| "mentioned_list (d # ds) = mentioned d @ mentioned_list ds"

text \<open>
  The flags of the end-to-end scenarios of the specification for the translation unit
  \<^verbatim>\<open>target.c\<close>, on any platform and with or without \<^verbatim>\<open>NDEBUG\<close>. Scenario A: dynamic
  libraries, \<^verbatim>\<open>TARGET_BUILD\<close> defined, \<^verbatim>\<open>BAR_BUILD\<close> undefined. Scenario C: the same
  with every \<^verbatim>\<open>*_STATIC\<close> defined.
\<close>

definition scenario_A :: "config \<Rightarrow> config" where
  "scenario_A c =
     c\<lparr>bar_static := False, bar_build := False, foo_static := False,
       target_static := False, target_build := True\<rparr>"

definition scenario_C :: "config \<Rightarrow> config" where
  "scenario_C c =
     c\<lparr>bar_static := True, bar_build := False, foo_static := True,
       target_static := True, target_build := True\<rparr>"

section \<open>The functions\<close>

text \<open>
  A call runs in a process state \<open>'s\<close> and returns a value with the state it leaves, or
  ends the process. \<^verbatim>\<open>target\<close> (lines 26 to 30 of \<^verbatim>\<open>target.c\<close>) calls \<^verbatim>\<open>bar\<close>, which the
  linker supplies, so the linked function is a parameter; how \<^verbatim>\<open>assert\<close> expands is fixed by the
  preprocessor. C's \<^verbatim>\<open>int\<close> has at least 16 bits and the constants 456 and 789 fit, so
  no arithmetic wraps and \<^verbatim>\<open>int\<close> values are modelled as integers.
\<close>

datatype fatal = AssertionFailed

definition target :: "assert_mode \<Rightarrow> ('s \<Rightarrow> int \<times> 's) \<Rightarrow> 's \<Rightarrow> fatal + int \<times> 's" where
  "target assert_expansion linked_bar s =
     (case linked_bar s of
        (b, s') \<Rightarrow>
          (case assert_expansion of
             AssertChecks \<Rightarrow> if b = 456 then Inr (789, s') else Inl AssertionFailed
           | AssertNoop \<Rightarrow> Inr (789, s')))"

text \<open>
  \<^verbatim>\<open>target()\<close> as built from \<^verbatim>\<open>target.c\<close> under a configuration: the preprocessor run
  fixes the expansion of \<^verbatim>\<open>assert\<close>; the attribute on the declaration does not change
  what the function computes.
\<close>

definition run_target ::
  "config \<Rightarrow> ('s \<Rightarrow> int \<times> 's) \<Rightarrow> 's \<Rightarrow> build_error + (fatal + int \<times> 's)" where
  "run_target c linked_bar s =
     (case observe assert_macro target_c c of
        Inl e \<Rightarrow> Inl e
      | Inr None \<Rightarrow> Inl (Undeclared ''assert'')
      | Inr (Some assert_expansion) \<Rightarrow> Inr (target assert_expansion linked_bar s))"

text \<open>
  Modelled from the spec: the body of \<^verbatim>\<open>bar()\<close> is not among the source files, only its
  declaration in \<^verbatim>\<open>bar.h\<close> (line 23). The spec (4.2) gives it a minimal deterministic body
  that returns the fixed sentinel 456.
\<close>

definition bar :: "'s \<Rightarrow> int \<times> 's" where
  "bar s = (456, s)"

text \<open>
  Modelled from the spec: the body of \<^verbatim>\<open>foo()\<close> is not among the source files, only its
  declaration in \<^verbatim>\<open>foo.h\<close> (line 23). The spec (4.2) says that it likewise returns its
  own fixed value, with no dependency on \<^verbatim>\<open>bar\<close>, and does not give the value: it is the
  parameter \<open>sentinel\<close>.
\<close>

definition foo :: "int \<Rightarrow> 's \<Rightarrow> int \<times> 's" where
  "foo sentinel s = (sentinel, s)"

text \<open>\<open>n\<close> calls of a function one after the other, and two calls that may end the process.\<close>

fun invoke_n :: "nat \<Rightarrow> ('s \<Rightarrow> 'a \<times> 's) \<Rightarrow> 's \<Rightarrow> 'a list \<times> 's" where
  "invoke_n 0 f s = ([], s)"
| "invoke_n (Suc n) f s =
     (case f s of
        (v, s1) \<Rightarrow> (case invoke_n n f s1 of (vs, s2) \<Rightarrow> (v # vs, s2)))"

definition call_twice :: "('s \<Rightarrow> fatal + 'a \<times> 's) \<Rightarrow> 's \<Rightarrow> fatal + ('a \<times> 'a) \<times> 's" where
  "call_twice f s =
     (case f s of
        Inl e \<Rightarrow> Inl e
      | Inr (v1, s1) \<Rightarrow>
          (case f s1 of
             Inl e \<Rightarrow> Inl e
           | Inr (v2, s2) \<Rightarrow> Inr ((v1, v2), s2)))"

section \<open>The table of the specification\<close>

text \<open>
  Section 4.1 of the specification, in its words: static linkage gives the empty
  attribute; dynamic linkage on a Windows-style platform gives the export attribute to the
  owning build and the import attribute to the consuming build; on an attribute-based
  platform both roles get the default-visibility attribute.
\<close>

definition spec_visibility_table :: "bool \<Rightarrow> bool \<Rightarrow> bool \<Rightarrow> token list" where
  "spec_visibility_table windows static owning =
     (if static then []
      else if windows then (if owning then declspec_dllexport else declspec_dllimport)
      else gnu_visibility_default)"

section \<open>Evaluating the preprocessor\<close>

declare expand.simps [simp del]

lemma expand_undefined: "map_of ms t = None \<Longrightarrow> expand ms hide t = [t]"
  by (simp add: expand.simps)

lemma expand_defined:
  "map_of ms t = Some body \<Longrightarrow> t \<notin> set hide \<Longrightarrow>
   expand ms hide t = concat (map (expand ms (t # hide)) body)"
  by (simp add: expand.simps)

lemma map_of_flag: "map_of (flag n b) k = (if b \<and> k = n then Some [''1''] else None)"
  by (simp add: flag_def)

lemma map_of_predefined:
  "map_of (predefined c) k =
     (if k = ''_WIN32'' \<and> win32 c \<or> k = ''NDEBUG'' \<and> ndebug c \<or>
         k = ''BAR_STATIC'' \<and> bar_static c \<or> k = ''BAR_BUILD'' \<and> bar_build c \<or>
         k = ''FOO_STATIC'' \<and> foo_static c \<or> k = ''FOO_BUILD'' \<and> foo_build c \<or>
         k = ''TARGET_STATIC'' \<and> target_static c \<or> k = ''TARGET_BUILD'' \<and> target_build c
      then Some [''1''] else None)"
  by (auto simp add: predefined_def map_of_flag map_add_def split: option.splits)

lemma map_of_undef:
  "map_of (filter (\<lambda>kv. fst kv \<noteq> n) ms) k = (if k = n then None else map_of ms k)"
  by (induction ms) auto

lemma pp_directives_append:
  "pp_directives (xs @ ys) st =
     (case pp_directives xs st of Inl e \<Rightarrow> Inl e | Inr st' \<Rightarrow> pp_directives ys st')"
  by (induction xs arbitrary: st) (auto split: sum.splits)

lemmas attribute_defs =
  dll_export_def dll_import_def export_attribute_def import_attribute_def
  declspec_dllexport_def declspec_dllimport_def gnu_visibility_default_def

lemmas plain_token_defs =
  plain_tokens_def declspec_dllexport_def declspec_dllimport_def gnu_visibility_default_def

lemma pp_bar_h:
  assumes fresh: "list_all (\<lambda>n. map_of (macros st) n = None)
     ([''XMAKERS_BAR_H'', ''BAR_DLL_EXPORT'', ''BAR_DLL_IMPORT'', ''BAR_PUBLIC_API'', ''bar'']
      @ plain_tokens)"
  shows "pp_directives bar_h st =
     Inr (st\<lparr>macros :=
            (''BAR_PUBLIC_API'',
               [if is_defined (macros st) ''BAR_BUILD'' then ''BAR_DLL_EXPORT''
                else ''BAR_DLL_IMPORT'']) #
            (''BAR_DLL_IMPORT'',
               dll_import (is_defined (macros st) ''_WIN32'') (is_defined (macros st) ''BAR_STATIC'')) #
            (''BAR_DLL_EXPORT'',
               dll_export (is_defined (macros st) ''_WIN32'') (is_defined (macros st) ''BAR_STATIC'')) #
            (''XMAKERS_BAR_H'', []) # macros st,
          out_lines := out_lines st @
            [(if is_defined (macros st) ''BAR_BUILD''
              then dll_export (is_defined (macros st) ''_WIN32'') (is_defined (macros st) ''BAR_STATIC'')
              else dll_import (is_defined (macros st) ''_WIN32'') (is_defined (macros st) ''BAR_STATIC'')) @
             [''int'', ''bar'', ''('', '')'', '';'']]\<rparr>)"
  using fresh
  by (cases "is_defined (macros st) ''_WIN32''"; cases "is_defined (macros st) ''BAR_STATIC''";
      cases "is_defined (macros st) ''BAR_BUILD''")
     (simp_all add: bar_h_def plain_tokens_def attribute_defs expand_line_def
        expand_undefined expand_defined is_defined_def)

lemma pp_foo_h:
  assumes fresh: "list_all (\<lambda>n. map_of (macros st) n = None)
     ([''XMAKERS_FOO_H'', ''FOO_DLL_EXPORT'', ''FOO_DLL_IMPORT'', ''FOO_PUBLIC_API'', ''foo'']
      @ plain_tokens)"
  shows "pp_directives foo_h st =
     Inr (st\<lparr>macros :=
            (''FOO_PUBLIC_API'',
               [if is_defined (macros st) ''FOO_BUILD'' then ''FOO_DLL_EXPORT''
                else ''FOO_DLL_IMPORT'']) #
            (''FOO_DLL_IMPORT'',
               dll_import (is_defined (macros st) ''_WIN32'') (is_defined (macros st) ''FOO_STATIC'')) #
            (''FOO_DLL_EXPORT'',
               dll_export (is_defined (macros st) ''_WIN32'') (is_defined (macros st) ''FOO_STATIC'')) #
            (''XMAKERS_FOO_H'', []) # macros st,
          out_lines := out_lines st @
            [(if is_defined (macros st) ''FOO_BUILD''
              then dll_export (is_defined (macros st) ''_WIN32'') (is_defined (macros st) ''FOO_STATIC'')
              else dll_import (is_defined (macros st) ''_WIN32'') (is_defined (macros st) ''FOO_STATIC'')) @
             [''int'', ''foo'', ''('', '')'', '';'']]\<rparr>)"
  using fresh
  by (cases "is_defined (macros st) ''_WIN32''"; cases "is_defined (macros st) ''FOO_STATIC''";
      cases "is_defined (macros st) ''FOO_BUILD''")
     (simp_all add: foo_h_def plain_tokens_def attribute_defs expand_line_def
        expand_undefined expand_defined is_defined_def)

lemma pp_target_c_rest:
  assumes fresh: "list_all (\<lambda>n. map_of (macros st) n = None)
     ([''TARGET_DLL_EXPORT'', ''TARGET_DLL_IMPORT'', ''TARGET_PUBLIC_API'', ''target'',
       ''{'', ''b'', ''='', ''bar'', ''assert'', ''=='', ''456'', ''return'', ''789'', ''}'']
      @ plain_tokens)"
  shows "pp_directives (drop 3 target_c) st =
     Inr (st\<lparr>macros :=
            (''TARGET_PUBLIC_API'',
               [if is_defined (macros st) ''TARGET_BUILD'' then ''TARGET_DLL_EXPORT''
                else ''TARGET_DLL_IMPORT'']) #
            (''TARGET_DLL_IMPORT'',
               dll_import (is_defined (macros st) ''_WIN32'') (is_defined (macros st) ''TARGET_STATIC'')) #
            (''TARGET_DLL_EXPORT'',
               dll_export (is_defined (macros st) ''_WIN32'') (is_defined (macros st) ''TARGET_STATIC'')) #
            macros st,
          out_lines := out_lines st @
            ((if is_defined (macros st) ''TARGET_BUILD''
              then dll_export (is_defined (macros st) ''_WIN32'') (is_defined (macros st) ''TARGET_STATIC'')
              else dll_import (is_defined (macros st) ''_WIN32'') (is_defined (macros st) ''TARGET_STATIC'')) @
             [''int'', ''target'', ''('', '')'', '';'']) # target_definition\<rparr>)"
  using fresh
  by (cases "is_defined (macros st) ''_WIN32''"; cases "is_defined (macros st) ''TARGET_STATIC''";
      cases "is_defined (macros st) ''TARGET_BUILD''")
     (simp_all add: target_c_def target_definition_def plain_tokens_def attribute_defs
        expand_line_def expand_undefined expand_defined is_defined_def)

lemma is_defined_predefined:
  "is_defined (predefined c) k \<longleftrightarrow>
     k = ''_WIN32'' \<and> win32 c \<or> k = ''NDEBUG'' \<and> ndebug c \<or>
     k = ''BAR_STATIC'' \<and> bar_static c \<or> k = ''BAR_BUILD'' \<and> bar_build c \<or>
     k = ''FOO_STATIC'' \<and> foo_static c \<or> k = ''FOO_BUILD'' \<and> foo_build c \<or>
     k = ''TARGET_STATIC'' \<and> target_static c \<or> k = ''TARGET_BUILD'' \<and> target_build c"
  by (simp add: is_defined_def map_of_predefined)

lemma preprocess_bar_h:
  "preprocess bar_h c =
     Inr \<lparr>macros =
            (''BAR_PUBLIC_API'', [if bar_build c then ''BAR_DLL_EXPORT'' else ''BAR_DLL_IMPORT'']) #
            (''BAR_DLL_IMPORT'', dll_import (win32 c) (bar_static c)) #
            (''BAR_DLL_EXPORT'', dll_export (win32 c) (bar_static c)) #
            (''XMAKERS_BAR_H'', []) # predefined c,
          out_lines =
            [(if bar_build c then dll_export (win32 c) (bar_static c)
              else dll_import (win32 c) (bar_static c)) @
             [''int'', ''bar'', ''('', '')'', '';'']],
          assert_macro = None\<rparr>"
proof -
  have fresh: "list_all (\<lambda>n. map_of (macros (initial_state c)) n = None)
     ([''XMAKERS_BAR_H'', ''BAR_DLL_EXPORT'', ''BAR_DLL_IMPORT'', ''BAR_PUBLIC_API'', ''bar'']
      @ plain_tokens)"
    by (simp add: initial_state_def plain_tokens_def attribute_defs map_of_predefined)
  show ?thesis
    unfolding preprocess_def pp_bar_h [OF fresh]
    by (simp add: initial_state_def is_defined_predefined)
qed

lemma preprocess_foo_h:
  "preprocess foo_h c =
     Inr \<lparr>macros =
            (''FOO_PUBLIC_API'', [if foo_build c then ''FOO_DLL_EXPORT'' else ''FOO_DLL_IMPORT'']) #
            (''FOO_DLL_IMPORT'', dll_import (win32 c) (foo_static c)) #
            (''FOO_DLL_EXPORT'', dll_export (win32 c) (foo_static c)) #
            (''XMAKERS_FOO_H'', []) # predefined c,
          out_lines =
            [(if foo_build c then dll_export (win32 c) (foo_static c)
              else dll_import (win32 c) (foo_static c)) @
             [''int'', ''foo'', ''('', '')'', '';'']],
          assert_macro = None\<rparr>"
proof -
  have fresh: "list_all (\<lambda>n. map_of (macros (initial_state c)) n = None)
     ([''XMAKERS_FOO_H'', ''FOO_DLL_EXPORT'', ''FOO_DLL_IMPORT'', ''FOO_PUBLIC_API'', ''foo'']
      @ plain_tokens)"
    by (simp add: initial_state_def plain_tokens_def attribute_defs map_of_predefined)
  show ?thesis
    unfolding preprocess_def pp_foo_h [OF fresh]
    by (simp add: initial_state_def is_defined_predefined)
qed



lemma drop_2_target_c:
  "drop 2 target_c = Include ''bar/bar.h'' bar_h # drop 3 target_c"
  by (simp add: target_c_def)

lemma pp_target_c_from_line_3:
  assumes fresh: "list_all (\<lambda>n. map_of (macros st) n = None)
     ([''XMAKERS_BAR_H'', ''BAR_DLL_EXPORT'', ''BAR_DLL_IMPORT'', ''BAR_PUBLIC_API'', ''bar'',
       ''TARGET_DLL_EXPORT'', ''TARGET_DLL_IMPORT'', ''TARGET_PUBLIC_API'', ''target'',
       ''{'', ''b'', ''='', ''assert'', ''=='', ''456'', ''return'', ''789'', ''}'']
      @ plain_tokens)"
  shows "pp_directives (drop 2 target_c) st =
     Inr (st\<lparr>macros :=
            (''TARGET_PUBLIC_API'',
               [if is_defined (macros st) ''TARGET_BUILD'' then ''TARGET_DLL_EXPORT''
                else ''TARGET_DLL_IMPORT'']) #
            (''TARGET_DLL_IMPORT'',
               dll_import (is_defined (macros st) ''_WIN32'')
                 (is_defined (macros st) ''TARGET_STATIC'')) #
            (''TARGET_DLL_EXPORT'',
               dll_export (is_defined (macros st) ''_WIN32'')
                 (is_defined (macros st) ''TARGET_STATIC'')) #
            (''BAR_PUBLIC_API'',
               [if is_defined (macros st) ''BAR_BUILD'' then ''BAR_DLL_EXPORT''
                else ''BAR_DLL_IMPORT'']) #
            (''BAR_DLL_IMPORT'',
               dll_import (is_defined (macros st) ''_WIN32'')
                 (is_defined (macros st) ''BAR_STATIC'')) #
            (''BAR_DLL_EXPORT'',
               dll_export (is_defined (macros st) ''_WIN32'')
                 (is_defined (macros st) ''BAR_STATIC'')) #
            (''XMAKERS_BAR_H'', []) # macros st,
          out_lines := out_lines st @
            ((if is_defined (macros st) ''BAR_BUILD''
              then dll_export (is_defined (macros st) ''_WIN32'')
                     (is_defined (macros st) ''BAR_STATIC'')
              else dll_import (is_defined (macros st) ''_WIN32'')
                     (is_defined (macros st) ''BAR_STATIC'')) @
             [''int'', ''bar'', ''('', '')'', '';'']) #
            ((if is_defined (macros st) ''TARGET_BUILD''
              then dll_export (is_defined (macros st) ''_WIN32'')
                     (is_defined (macros st) ''TARGET_STATIC'')
              else dll_import (is_defined (macros st) ''_WIN32'')
                     (is_defined (macros st) ''TARGET_STATIC'')) @
             [''int'', ''target'', ''('', '')'', '';'']) #
            target_definition\<rparr>)"
proof -
  define st2 where "st2 = st\<lparr>macros :=
            (''BAR_PUBLIC_API'',
               [if is_defined (macros st) ''BAR_BUILD'' then ''BAR_DLL_EXPORT''
                else ''BAR_DLL_IMPORT'']) #
            (''BAR_DLL_IMPORT'',
               dll_import (is_defined (macros st) ''_WIN32'')
                 (is_defined (macros st) ''BAR_STATIC'')) #
            (''BAR_DLL_EXPORT'',
               dll_export (is_defined (macros st) ''_WIN32'')
                 (is_defined (macros st) ''BAR_STATIC'')) #
            (''XMAKERS_BAR_H'', []) # macros st,
          out_lines := out_lines st @
            [(if is_defined (macros st) ''BAR_BUILD''
              then dll_export (is_defined (macros st) ''_WIN32'')
                     (is_defined (macros st) ''BAR_STATIC'')
              else dll_import (is_defined (macros st) ''_WIN32'')
                     (is_defined (macros st) ''BAR_STATIC'')) @
             [''int'', ''bar'', ''('', '')'', '';'']]\<rparr>"
  have fresh1: "list_all (\<lambda>n. map_of (macros st) n = None)
     ([''XMAKERS_BAR_H'', ''BAR_DLL_EXPORT'', ''BAR_DLL_IMPORT'', ''BAR_PUBLIC_API'', ''bar'']
      @ plain_tokens)"
    using fresh by simp
  have st2: "pp_directives bar_h st = Inr st2"
    unfolding pp_bar_h [OF fresh1] st2_def ..
  have fresh2: "list_all (\<lambda>n. map_of (macros st2) n = None)
     ([''TARGET_DLL_EXPORT'', ''TARGET_DLL_IMPORT'', ''TARGET_PUBLIC_API'', ''target'',
       ''{'', ''b'', ''='', ''bar'', ''assert'', ''=='', ''456'', ''return'', ''789'', ''}'']
      @ plain_tokens)"
    using fresh by (simp add: st2_def plain_token_defs)
  have defd2: "is_defined (macros st2) ''_WIN32'' = is_defined (macros st) ''_WIN32''"
    "is_defined (macros st2) ''TARGET_STATIC'' = is_defined (macros st) ''TARGET_STATIC''"
    "is_defined (macros st2) ''TARGET_BUILD'' = is_defined (macros st) ''TARGET_BUILD''"
    by (simp_all add: st2_def is_defined_def)
  show ?thesis
    unfolding drop_2_target_c
    by (simp add: st2 pp_target_c_rest [OF fresh2] defd2) (simp add: st2_def)
qed

lemma preprocess_target_c:
  "preprocess target_c c =
     Inr \<lparr>macros =
            (''TARGET_PUBLIC_API'',
               [if target_build c then ''TARGET_DLL_EXPORT'' else ''TARGET_DLL_IMPORT'']) #
            (''TARGET_DLL_IMPORT'', dll_import (win32 c) (target_static c)) #
            (''TARGET_DLL_EXPORT'', dll_export (win32 c) (target_static c)) #
            (''BAR_PUBLIC_API'', [if bar_build c then ''BAR_DLL_EXPORT'' else ''BAR_DLL_IMPORT'']) #
            (''BAR_DLL_IMPORT'', dll_import (win32 c) (bar_static c)) #
            (''BAR_DLL_EXPORT'', dll_export (win32 c) (bar_static c)) #
            (''XMAKERS_BAR_H'', []) #
            filter (\<lambda>kv. fst kv \<noteq> ''NDEBUG'') (predefined c),
          out_lines =
            ((if bar_build c then dll_export (win32 c) (bar_static c)
              else dll_import (win32 c) (bar_static c)) @
             [''int'', ''bar'', ''('', '')'', '';'']) #
            ((if target_build c then dll_export (win32 c) (target_static c)
              else dll_import (win32 c) (target_static c)) @
             [''int'', ''target'', ''('', '')'', '';'']) #
            target_definition,
          assert_macro = Some AssertChecks\<rparr>"
proof -
  define st1 where "st1 = \<lparr>macros = filter (\<lambda>kv. fst kv \<noteq> ''NDEBUG'') (predefined c),
    out_lines = [], assert_macro = Some AssertChecks\<rparr>"
  have head: "pp_directives (take 2 target_c) (initial_state c) = Inr st1"
    by (simp add: target_c_def initial_state_def std_header_def st1_def is_defined_def map_of_undef)
  have fresh: "list_all (\<lambda>n. map_of (macros st1) n = None)
     ([''XMAKERS_BAR_H'', ''BAR_DLL_EXPORT'', ''BAR_DLL_IMPORT'', ''BAR_PUBLIC_API'', ''bar'',
       ''TARGET_DLL_EXPORT'', ''TARGET_DLL_IMPORT'', ''TARGET_PUBLIC_API'', ''target'',
       ''{'', ''b'', ''='', ''assert'', ''=='', ''456'', ''return'', ''789'', ''}'']
      @ plain_tokens)"
    by (simp add: st1_def plain_token_defs map_of_undef map_of_predefined)
  have defd: "is_defined (macros st1) ''_WIN32'' = win32 c"
    "is_defined (macros st1) ''BAR_STATIC'' = bar_static c"
    "is_defined (macros st1) ''BAR_BUILD'' = bar_build c"
    "is_defined (macros st1) ''TARGET_STATIC'' = target_static c"
    "is_defined (macros st1) ''TARGET_BUILD'' = target_build c"
    by (simp_all add: st1_def is_defined_def map_of_undef map_of_predefined)
  have "preprocess target_c c = pp_directives (take 2 target_c @ drop 2 target_c) (initial_state c)"
    by (simp add: preprocess_def)
  also have "\<dots> = pp_directives (drop 2 target_c) st1"
    unfolding pp_directives_append head by simp
  finally show ?thesis
    unfolding pp_target_c_from_line_3 [OF fresh] defd by (simp add: st1_def)
qed

lemma expand_plain:
  "list_all (\<lambda>t. map_of ms t = None) ts \<Longrightarrow> concat (map (expand ms hide) ts) = ts"
  by (induction ts) (simp_all add: expand_undefined)

lemma macro_value_plain:
  assumes "map_of (macros st) n = Some body"
    and "list_all (\<lambda>t. map_of (macros st) t = None) body"
  shows "macro_value n st = Some body"
  using assms by (simp add: macro_value_def is_defined_def expand_line_def expand_defined expand_plain)

lemma macro_value_alias:
  assumes "map_of (macros st) n = Some [x]" and "x \<noteq> n"
    and "map_of (macros st) x = Some body"
    and "list_all (\<lambda>t. map_of (macros st) t = None) body"
  shows "macro_value n st = Some body"
  using assms by (simp add: macro_value_def is_defined_def expand_line_def expand_defined expand_plain)

lemma plain_attributes:
  assumes "list_all P plain_tokens"
  shows "list_all P (dll_export w s)" and "list_all P (dll_import w s)"
  using assms by (simp_all add: plain_tokens_def dll_export_def dll_import_def
      export_attribute_def import_attribute_def)


lemma visibility_values:
  assumes ms: "macros st =
      (pa, [if b then ex else im]) # (im, dll_import w s) # (ex, dll_export w s) # rest"
    and names: "pa \<noteq> im" "pa \<noteq> ex" "im \<noteq> ex"
    and plain: "list_all (\<lambda>t. map_of (macros st) t = None) plain_tokens"
  shows "macro_value ex st = Some (dll_export w s)"
    and "macro_value im st = Some (dll_import w s)"
    and "macro_value pa st = Some (if b then dll_export w s else dll_import w s)"
proof -
  have ex: "map_of (macros st) ex = Some (dll_export w s)"
    and im: "map_of (macros st) im = Some (dll_import w s)"
    and pa: "map_of (macros st) pa = Some [if b then ex else im]"
    using names by (simp_all add: ms)
  show "macro_value ex st = Some (dll_export w s)"
    by (rule macro_value_plain [OF ex plain_attributes(1) [OF plain]])
  show "macro_value im st = Some (dll_import w s)"
    by (rule macro_value_plain [OF im plain_attributes(2) [OF plain]])
  show "macro_value pa st = Some (if b then dll_export w s else dll_import w s)"
  proof (cases b)
    case True
    with pa have "map_of (macros st) pa = Some [ex]" by simp
    from macro_value_alias [OF this _ ex plain_attributes(1) [OF plain]] names True
    show ?thesis by simp
  next
    case False
    with pa have "map_of (macros st) pa = Some [im]" by simp
    from macro_value_alias [OF this _ im plain_attributes(2) [OF plain]] names False
    show ?thesis by simp
  qed
qed

lemma bar_h_values:
  "observe (macro_value ''BAR_DLL_EXPORT'') bar_h c =
     Inr (Some (dll_export (win32 c) (bar_static c)))"
  "observe (macro_value ''BAR_DLL_IMPORT'') bar_h c =
     Inr (Some (dll_import (win32 c) (bar_static c)))"
  "observe (macro_value ''BAR_PUBLIC_API'') bar_h c =
     Inr (Some (if bar_build c then dll_export (win32 c) (bar_static c)
                else dll_import (win32 c) (bar_static c)))"
proof -
  obtain st where st: "preprocess bar_h c = Inr st"
    and ms: "macros st =
      (''BAR_PUBLIC_API'', [if bar_build c then ''BAR_DLL_EXPORT'' else ''BAR_DLL_IMPORT'']) #
      (''BAR_DLL_IMPORT'', dll_import (win32 c) (bar_static c)) #
      (''BAR_DLL_EXPORT'', dll_export (win32 c) (bar_static c)) #
      (''XMAKERS_BAR_H'', []) # predefined c"
    by (simp add: preprocess_bar_h)
  have plain: "list_all (\<lambda>t. map_of (macros st) t = None) plain_tokens"
    by (simp add: ms plain_token_defs map_of_predefined)
  note v = visibility_values [OF ms _ _ _ plain]
  show "observe (macro_value ''BAR_DLL_EXPORT'') bar_h c =
     Inr (Some (dll_export (win32 c) (bar_static c)))"
    by (simp add: observe_def st v(1))
  show "observe (macro_value ''BAR_DLL_IMPORT'') bar_h c =
     Inr (Some (dll_import (win32 c) (bar_static c)))"
    by (simp add: observe_def st v(2))
  show "observe (macro_value ''BAR_PUBLIC_API'') bar_h c =
     Inr (Some (if bar_build c then dll_export (win32 c) (bar_static c)
                else dll_import (win32 c) (bar_static c)))"
    by (simp add: observe_def st v(3))
qed

lemma foo_h_values:
  "observe (macro_value ''FOO_DLL_EXPORT'') foo_h c =
     Inr (Some (dll_export (win32 c) (foo_static c)))"
  "observe (macro_value ''FOO_DLL_IMPORT'') foo_h c =
     Inr (Some (dll_import (win32 c) (foo_static c)))"
  "observe (macro_value ''FOO_PUBLIC_API'') foo_h c =
     Inr (Some (if foo_build c then dll_export (win32 c) (foo_static c)
                else dll_import (win32 c) (foo_static c)))"
proof -
  obtain st where st: "preprocess foo_h c = Inr st"
    and ms: "macros st =
      (''FOO_PUBLIC_API'', [if foo_build c then ''FOO_DLL_EXPORT'' else ''FOO_DLL_IMPORT'']) #
      (''FOO_DLL_IMPORT'', dll_import (win32 c) (foo_static c)) #
      (''FOO_DLL_EXPORT'', dll_export (win32 c) (foo_static c)) #
      (''XMAKERS_FOO_H'', []) # predefined c"
    by (simp add: preprocess_foo_h)
  have plain: "list_all (\<lambda>t. map_of (macros st) t = None) plain_tokens"
    by (simp add: ms plain_token_defs map_of_predefined)
  note v = visibility_values [OF ms _ _ _ plain]
  show "observe (macro_value ''FOO_DLL_EXPORT'') foo_h c =
     Inr (Some (dll_export (win32 c) (foo_static c)))"
    by (simp add: observe_def st v(1))
  show "observe (macro_value ''FOO_DLL_IMPORT'') foo_h c =
     Inr (Some (dll_import (win32 c) (foo_static c)))"
    by (simp add: observe_def st v(2))
  show "observe (macro_value ''FOO_PUBLIC_API'') foo_h c =
     Inr (Some (if foo_build c then dll_export (win32 c) (foo_static c)
                else dll_import (win32 c) (foo_static c)))"
    by (simp add: observe_def st v(3))
qed

lemma target_c_values:
  "observe (macro_value ''TARGET_DLL_EXPORT'') target_c c =
     Inr (Some (dll_export (win32 c) (target_static c)))"
  "observe (macro_value ''TARGET_DLL_IMPORT'') target_c c =
     Inr (Some (dll_import (win32 c) (target_static c)))"
  "observe (macro_value ''TARGET_PUBLIC_API'') target_c c =
     Inr (Some (if target_build c then dll_export (win32 c) (target_static c)
                else dll_import (win32 c) (target_static c)))"
proof -
  obtain st where st: "preprocess target_c c = Inr st"
    and ms: "macros st =
      (''TARGET_PUBLIC_API'', [if target_build c then ''TARGET_DLL_EXPORT'' else ''TARGET_DLL_IMPORT'']) #
      (''TARGET_DLL_IMPORT'', dll_import (win32 c) (target_static c)) #
      (''TARGET_DLL_EXPORT'', dll_export (win32 c) (target_static c)) #
      (''BAR_PUBLIC_API'', [if bar_build c then ''BAR_DLL_EXPORT'' else ''BAR_DLL_IMPORT'']) #
      (''BAR_DLL_IMPORT'', dll_import (win32 c) (bar_static c)) #
      (''BAR_DLL_EXPORT'', dll_export (win32 c) (bar_static c)) #
      (''XMAKERS_BAR_H'', []) #
      filter (\<lambda>kv. fst kv \<noteq> ''NDEBUG'') (predefined c)"
    by (simp add: preprocess_target_c)
  have plain: "list_all (\<lambda>t. map_of (macros st) t = None) plain_tokens"
    by (simp add: ms plain_token_defs map_of_undef map_of_predefined)
  note v = visibility_values [OF ms _ _ _ plain]
  show "observe (macro_value ''TARGET_DLL_EXPORT'') target_c c =
     Inr (Some (dll_export (win32 c) (target_static c)))"
    by (simp add: observe_def st v(1))
  show "observe (macro_value ''TARGET_DLL_IMPORT'') target_c c =
     Inr (Some (dll_import (win32 c) (target_static c)))"
    by (simp add: observe_def st v(2))
  show "observe (macro_value ''TARGET_PUBLIC_API'') target_c c =
     Inr (Some (if target_build c then dll_export (win32 c) (target_static c)
                else dll_import (win32 c) (target_static c)))"
    by (simp add: observe_def st v(3))
qed

lemma target_c_assert: "observe assert_macro target_c c = Inr (Some AssertChecks)"
  by (simp add: observe_def preprocess_target_c)

lemma run_target_eq: "run_target c b s = Inr (target AssertChecks b s)"
  by (simp add: run_target_def target_c_assert)

lemma target_cases:
  "target AssertChecks b s =
     (if fst (b s) = 456 then Inr (789, snd (b s)) else Inl AssertionFailed)"
  by (simp add: target_def split: prod.splits)

lemma invoke_n_const: "invoke_n n (\<lambda>s. (v, s)) s = (replicate n v, s)"
  by (induction n) simp_all

lemma bar_const: "bar = (\<lambda>s. (456, s))"
  by (rule ext) (simp add: bar_def)

lemma foo_const: "foo v = (\<lambda>s. (v, s))"
  by (rule ext) (simp add: foo_def)

lemma drop_2_out_lines:
  "observe (\<lambda>st. drop 2 (out_lines st)) target_c c = Inr target_definition"
  by (simp add: observe_def preprocess_target_c)

lemma bar_h_declaration:
  "observe out_lines bar_h c =
     Inr [(if bar_build c then dll_export (win32 c) (bar_static c)
           else dll_import (win32 c) (bar_static c)) @
          [''int'', ''bar'', ''('', '')'', '';'']]"
  by (simp add: observe_def preprocess_bar_h)

lemma foo_h_declaration:
  "observe out_lines foo_h c =
     Inr [(if foo_build c then dll_export (win32 c) (foo_static c)
           else dll_import (win32 c) (foo_static c)) @
          [''int'', ''foo'', ''('', '')'', '';'']]"
  by (simp add: observe_def preprocess_foo_h)

lemma mentions:
  "''foo'' \<notin> set (mentioned_list bar_h)" "''foo'' \<notin> set (mentioned_list target_c)"
  "''bar'' \<notin> set (mentioned_list foo_h)" "''target'' \<notin> set (mentioned_list foo_h)"
  by (simp_all add: bar_h_def foo_h_def target_c_def target_definition_def
      declspec_dllexport_def declspec_dllimport_def gnu_visibility_default_def)

lemma target_value:
  "target am b s = Inr (v, t) \<Longrightarrow> v = 789"
  by (auto simp add: target_def split: prod.splits assert_mode.splits if_splits)

lemma call_twice_target:
  "call_twice (target am b) s = Inr ((v1, v2), t) \<Longrightarrow> v1 = 789 \<and> v2 = 789"
  by (auto simp add: call_twice_def split: sum.splits prod.splits dest: target_value)

lemma assert_h_follows_ndebug:
  "observe assert_macro [IncludeStd ''assert.h''] c =
     Inr (Some (if ndebug c then AssertNoop else AssertChecks))"
  by (simp add: observe_def preprocess_def initial_state_def std_header_def
      is_defined_predefined)

lemma undef_then_assert_h:
  "observe assert_macro (take 2 target_c) c = Inr (Some AssertChecks)"
  by (simp add: observe_def preprocess_def initial_state_def std_header_def target_c_def
      is_defined_def map_of_undef)

lemma without_undef:
  "observe assert_macro (tl target_c) c =
     Inr (Some (if ndebug c then AssertNoop else AssertChecks))"
proof -
  define st1 where "st1 = \<lparr>macros = predefined c,
    out_lines = [], assert_macro = Some (if ndebug c then AssertNoop else AssertChecks)\<rparr>"
  have head: "std_header ''assert.h'' (initial_state c) = Inr st1"
    by (simp add: initial_state_def std_header_def st1_def is_defined_predefined)
  have fresh: "list_all (\<lambda>n. map_of (macros st1) n = None)
     ([''XMAKERS_BAR_H'', ''BAR_DLL_EXPORT'', ''BAR_DLL_IMPORT'', ''BAR_PUBLIC_API'', ''bar'',
       ''TARGET_DLL_EXPORT'', ''TARGET_DLL_IMPORT'', ''TARGET_PUBLIC_API'', ''target'',
       ''{'', ''b'', ''='', ''assert'', ''=='', ''456'', ''return'', ''789'', ''}'']
      @ plain_tokens)"
    by (simp add: st1_def plain_token_defs map_of_predefined)
  have "tl target_c = [IncludeStd ''assert.h''] @ drop 2 target_c"
    by (simp add: target_c_def)
  then have "preprocess (tl target_c) c = pp_directives (drop 2 target_c) st1"
    unfolding preprocess_def pp_directives_append by (simp add: head)
  then show ?thesis
    unfolding observe_def pp_target_c_from_line_3 [OF fresh] by (simp add: st1_def)
qed

lemma target_without_check: "target AssertNoop b s = Inr (789, snd (b s))"
  by (simp add: target_def split: prod.splits)

lemma defined_preserved:
  "pp_directive d st = Inr st' \<Longrightarrow> is_defined (macros st) g \<Longrightarrow> g \<notin> set (undefs d) \<Longrightarrow>
     is_defined (macros st') g"
  "pp_directives ds st = Inr st' \<Longrightarrow> is_defined (macros st) g \<Longrightarrow> g \<notin> set (undefs_list ds) \<Longrightarrow>
     is_defined (macros st') g"
proof (induction d st and ds st arbitrary: st' and st' rule: pp_directive_pp_directives.induct)
  case (1 n body st)
  then show ?case
    by (auto simp add: is_defined_def split: option.splits if_splits)
next
  case (2 n st)
  then show ?case
    by (auto simp add: is_defined_def map_of_undef)
next
  case (3 n thn els st)
  then show ?case by (auto split: if_splits)
next
  case (4 n thn els st)
  then show ?case by (auto split: if_splits)
next
  case (5 name content st)
  then show ?case by auto
next
  case (6 name st)
  then show ?case by (auto simp add: std_header_def split: if_splits)
next
  case (7 ts st)
  then show ?case by auto
next
  case (8 st)
  then show ?case by auto
next
  case (9 d ds st)
  then show ?case by (auto split: sum.splits)
qed

lemma guard_skips:
  "is_defined (macros st) g \<Longrightarrow> pp_directive (Include nm [Ifndef g body []]) st = Inr st"
  by simp

lemma guard_set:
  assumes run: "pp_directive (Include nm [Ifndef g (Define g [] # body) []]) st = Inr st'"
    and keeps: "g \<notin> set (undefs_list body)"
  shows "is_defined (macros st') g"
proof (cases "is_defined (macros st) g")
  case True
  with run show ?thesis by simp
next
  case False
  then have none: "map_of (macros st) g = None"
    by (simp add: is_defined_def)
  from run False none
  have "pp_directives body (st\<lparr>macros := (g, []) # macros st\<rparr>) = Inr st'"
    by (simp split: sum.splits)
  then show ?thesis
    by (rule defined_preserved(2) [OF _ _ keeps]) (simp add: is_defined_def)
qed

lemma guarded_repeat_skips:
  "is_defined (macros st) g \<Longrightarrow>
   pp_directives (replicate n (Include nm [Ifndef g body []])) st = Inr st"
  by (induction n) simp_all

lemma include_guard:
  assumes keeps: "g \<notin> set (undefs_list body)"
  shows "pp_directives (replicate (Suc n) (Include nm [Ifndef g (Define g [] # body) []])) st =
         pp_directive (Include nm [Ifndef g (Define g [] # body) []]) st"
proof (cases "pp_directive (Include nm [Ifndef g (Define g [] # body) []]) st")
  case (Inl e)
  then show ?thesis by simp
next
  case (Inr st')
  then have "is_defined (macros st') g"
    using keeps by (rule guard_set)
  then have "pp_directives (replicate n (Include nm [Ifndef g (Define g [] # body) []])) st' = Inr st'"
    by (rule guarded_repeat_skips)
  with Inr show ?thesis by simp
qed

lemma include_guard_later:
  assumes keeps: "g \<notin> set (undefs_list body)" and between: "g \<notin> set (undefs_list ds)"
  shows "pp_directives
           (Include nm [Ifndef g (Define g [] # body) []] # ds @
            [Include nm [Ifndef g (Define g [] # body) []]]) st =
         pp_directives (Include nm [Ifndef g (Define g [] # body) []] # ds) st"
proof (cases "pp_directive (Include nm [Ifndef g (Define g [] # body) []]) st")
  case (Inl e)
  then show ?thesis by simp
next
  case first: (Inr st1)
  then have guard1: "is_defined (macros st1) g"
    using keeps by (rule guard_set)
  show ?thesis
  proof (cases "pp_directives ds st1")
    case (Inl e)
    with first show ?thesis by (simp add: pp_directives_append)
  next
    case (Inr st2)
    then have "is_defined (macros st2) g"
      using guard1 between by (rule defined_preserved(2))
    with first Inr show ?thesis by (simp add: pp_directives_append)
  qed
qed

section \<open>The claims\<close>

text \<open>
  C1. For each of the three libraries and every configuration (platform family, linkage
  mode, build role, and whatever else is defined), preprocessing the file that holds the
  visibility block succeeds and \<^verbatim>\<open><LIB>_PUBLIC_API\<close> expands to the entry of the table of
  section 4.1: nothing when \<^verbatim>\<open><LIB>_STATIC\<close> is defined, \<^verbatim>\<open>__declspec(dllexport)\<close> for a
  Windows-style dynamic owning build, \<^verbatim>\<open>__declspec(dllimport)\<close> for a Windows-style dynamic
  consuming build, and \<^verbatim>\<open>[[gnu::visibility("default")]]\<close> for an attribute-based dynamic
  build in both roles.
\<close>

theorem public_api_matches_table:
  "observe (macro_value ''BAR_PUBLIC_API'') bar_h c =
     Inr (Some (spec_visibility_table (win32 c) (bar_static c) (bar_build c))) \<and>
   observe (macro_value ''FOO_PUBLIC_API'') foo_h c =
     Inr (Some (spec_visibility_table (win32 c) (foo_static c) (foo_build c))) \<and>
   observe (macro_value ''TARGET_PUBLIC_API'') target_c c =
     Inr (Some (spec_visibility_table (win32 c) (target_static c) (target_build c)))"
  by (simp add: bar_h_values foo_h_values target_c_values spec_visibility_table_def
      dll_export_def dll_import_def export_attribute_def import_attribute_def)

theorem public_api_matches_table_witness:
  "observe (macro_value ''BAR_PUBLIC_API'') bar_h
     \<lparr>win32 = True, ndebug = False, bar_static = False, bar_build = True,
      foo_static = True, foo_build = False, target_static = False, target_build = False\<rparr>
   = Inr (Some [''__declspec'', ''('', ''dllexport'', '')'']) \<and>
   observe (macro_value ''FOO_PUBLIC_API'') foo_h
     \<lparr>win32 = True, ndebug = False, bar_static = False, bar_build = True,
      foo_static = True, foo_build = False, target_static = False, target_build = False\<rparr>
   = Inr (Some []) \<and>
   observe (macro_value ''TARGET_PUBLIC_API'') target_c
     \<lparr>win32 = True, ndebug = False, bar_static = False, bar_build = True,
      foo_static = True, foo_build = False, target_static = False, target_build = False\<rparr>
   = Inr (Some [''__declspec'', ''('', ''dllimport'', '')''])"
  using public_api_matches_table
    [of "\<lparr>win32 = True, ndebug = False, bar_static = False, bar_build = True,
      foo_static = True, foo_build = False, target_static = False, target_build = False\<rparr>"]
  by (simp add: spec_visibility_table_def declspec_dllexport_def declspec_dllimport_def)

text \<open>
  C2. Whatever value \<open>v\<close> the call to \<^verbatim>\<open>bar()\<close> inside \<^verbatim>\<open>target()\<close> returns, and under
  every configuration: \<^verbatim>\<open>target()\<close> returns 789 exactly when \<open>v\<close> is 456, it returns at all
  exactly when \<open>v\<close> is 456, and when \<open>v\<close> is not 456 the assertion ends the process before
  \<^verbatim>\<open>target()\<close> returns.
\<close>

theorem target_returns_iff_bar_456:
  assumes "b s = (v, s')"
  shows "(run_target c b s = Inr (Inr (789, s')) \<longleftrightarrow> v = 456) \<and>
         ((\<exists>r. run_target c b s = Inr (Inr r)) \<longleftrightarrow> v = 456) \<and>
         (v \<noteq> 456 \<longrightarrow> run_target c b s = Inr (Inl AssertionFailed))"
  using assms by (simp add: run_target_eq target_cases)

theorem target_returns_iff_bar_456_witness:
  "run_target \<lparr>win32 = False, ndebug = True, bar_static = False, bar_build = False,
      foo_static = False, foo_build = False, target_static = False, target_build = True\<rparr>
     (\<lambda>s. (456, s)) (0::nat) = Inr (Inr (789, 0)) \<and>
   run_target \<lparr>win32 = False, ndebug = True, bar_static = False, bar_build = False,
      foo_static = False, foo_build = False, target_static = False, target_build = True\<rparr>
     (\<lambda>s. (457, s)) (0::nat) = Inr (Inl AssertionFailed)"
  using
    target_returns_iff_bar_456 [of "\<lambda>s. (456, s)" "0::nat" 456 0
      "\<lparr>win32 = False, ndebug = True, bar_static = False, bar_build = False,
      foo_static = False, foo_build = False, target_static = False, target_build = True\<rparr>"]
    target_returns_iff_bar_456 [of "\<lambda>s. (457, s)" "0::nat" 457 0
      "\<lparr>win32 = False, ndebug = True, bar_static = False, bar_build = False,
      foo_static = False, foo_build = False, target_static = False, target_build = True\<rparr>"]
  by simp

text \<open>
  C3. \<^verbatim>\<open>bar()\<close> returns 456 on every call and leaves the process state as it was: any
  number of calls in a row return 456 each, and the consumer \<^verbatim>\<open>target()\<close>, linked with it,
  passes its assertion and returns 789 under every configuration.
\<close>

theorem bar_returns_456:
  "bar s = (456, s) \<and> invoke_n n bar s = (replicate n 456, s) \<and>
   run_target c bar s = Inr (Inr (789, s))"
  by (simp add: bar_const invoke_n_const run_target_eq target_cases)

theorem bar_returns_456_witness:
  "invoke_n 3 bar (0::nat) = ([456, 456, 456], 0)"
  using bar_returns_456 [of "0::nat" 3]
  by (simp add: numeral_3_eq_3)

text \<open>
  C4. Linkage-mode transparency. On every platform, \<^verbatim>\<open>target()\<close> built with every
  \<^verbatim>\<open>*_STATIC\<close> defined (scenario C) behaves as \<^verbatim>\<open>target()\<close> built for dynamic linkage
  (scenario A), for every linked \<^verbatim>\<open>bar\<close> and every state; the preprocessed definition of
  the function is the same token sequence in both; and the declaration of \<^verbatim>\<open>bar\<close> that the
  header gives differs only in the attribute in front of \<^verbatim>\<open>int bar();\<close>.
\<close>

theorem linkage_mode_transparent:
  "run_target (scenario_C c) b s = run_target (scenario_A c) b s \<and>
   observe (\<lambda>st. drop 2 (out_lines st)) target_c (scenario_C c) =
     observe (\<lambda>st. drop 2 (out_lines st)) target_c (scenario_A c) \<and>
   observe out_lines bar_h (scenario_C c) =
     Inr [[''int'', ''bar'', ''('', '')'', '';'']] \<and>
   observe out_lines bar_h (scenario_A c) =
     Inr [import_attribute (win32 c) @ [''int'', ''bar'', ''('', '')'', '';'']]"
  by (simp add: run_target_eq drop_2_out_lines bar_h_declaration scenario_A_def scenario_C_def
      dll_import_def)

theorem linkage_mode_transparent_witness:
  "run_target (scenario_C \<lparr>win32 = False, ndebug = False, bar_static = False, bar_build = False,
      foo_static = False, foo_build = False, target_static = False, target_build = False\<rparr>)
     (\<lambda>s. (456, s)) (0::nat) = Inr (Inr (789, 0)) \<and>
   run_target (scenario_A \<lparr>win32 = False, ndebug = False, bar_static = False, bar_build = False,
      foo_static = False, foo_build = False, target_static = False, target_build = False\<rparr>)
     (\<lambda>s. (456, s)) (0::nat) = Inr (Inr (789, 0))"
  using linkage_mode_transparent [of "\<lparr>win32 = False, ndebug = False, bar_static = False, bar_build = False,
      foo_static = False, foo_build = False, target_static = False, target_build = False\<rparr>" "\<lambda>s. (456, s)" "0::nat"]
  by (simp add: run_target_eq target_cases)

text \<open>
  C5. \<^verbatim>\<open>foo()\<close> returns its sentinel on every call and leaves the process state as it was,
  any number of calls in a row. Neither \<^verbatim>\<open>bar.h\<close> nor \<^verbatim>\<open>target.c\<close> mentions \<^verbatim>\<open>foo\<close>, and
  \<^verbatim>\<open>foo.h\<close> mentions neither \<^verbatim>\<open>bar\<close> nor \<^verbatim>\<open>target\<close>; what \<^verbatim>\<open>foo.h\<close> declares does not
  depend on the flags of the other two libraries.
\<close>

theorem foo_returns_sentinel:
  "foo v s = (v, s) \<and> invoke_n n (foo v) s = (replicate n v, s) \<and>
   ''foo'' \<notin> set (mentioned_list bar_h) \<and> ''foo'' \<notin> set (mentioned_list target_c) \<and>
   ''bar'' \<notin> set (mentioned_list foo_h) \<and> ''target'' \<notin> set (mentioned_list foo_h) \<and>
   observe out_lines foo_h
     (c\<lparr>bar_static := bs, bar_build := bb, target_static := ts, target_build := tb\<rparr>) =
     observe out_lines foo_h c"
  by (simp add: foo_const invoke_n_const foo_h_declaration mentions)

theorem foo_returns_sentinel_witness:
  "invoke_n 2 (foo 123) (0::nat) = ([123, 123], 0)"
  using foo_returns_sentinel [of 123 "0::nat" 2]
  by (simp add: numeral_2_eq_2)

text \<open>
  C6. Each of the three functions returns the same value on any two calls in one process
  and keeps no state. For \<^verbatim>\<open>bar()\<close> and \<^verbatim>\<open>foo()\<close>: the value does not depend on the state,
  the state is left as it was, and two calls in a row return the same value. For
  \<^verbatim>\<open>target()\<close>: with \<^verbatim>\<open>bar()\<close> linked, two calls in a row return 789 both and leave the
  state as it was; with any function linked in its place and either expansion of
  \<^verbatim>\<open>assert\<close>, two calls that return, in a row or from any two states, return the same value.
\<close>

theorem calls_idempotent:
  "fst (bar s) = fst (bar s') \<and> snd (bar s) = s \<and>
   call_twice (Inr \<circ> bar) s = Inr ((456, 456), s) \<and>
   fst (foo v s) = fst (foo v s') \<and> snd (foo v s) = s \<and>
   call_twice (Inr \<circ> foo v) s = Inr ((v, v), s) \<and>
   run_target c b s = Inr (target AssertChecks b s) \<and>
   call_twice (target AssertChecks bar) s = Inr ((789, 789), s) \<and>
   (\<forall>am v1 v2 t. call_twice (target am b) s = Inr ((v1, v2), t) \<longrightarrow> v1 = v2) \<and>
   (\<forall>am v1 v2 t1 t2. target am b s = Inr (v1, t1) \<longrightarrow> target am b s' = Inr (v2, t2) \<longrightarrow> v1 = v2)"
proof -
  have "\<forall>am v1 v2 t. call_twice (target am b) s = Inr ((v1, v2), t) \<longrightarrow> v1 = v2"
    by (auto dest: call_twice_target)
  moreover have "\<forall>am v1 v2 t1 t2. target am b s = Inr (v1, t1) \<longrightarrow>
      target am b s' = Inr (v2, t2) \<longrightarrow> v1 = v2"
    by (auto dest: target_value)
  moreover have "call_twice (target AssertChecks bar) s = Inr ((789, 789), s)"
    by (simp add: call_twice_def target_cases bar_def)
  ultimately show ?thesis
    by (simp add: bar_def foo_def call_twice_def run_target_eq)
qed

theorem calls_idempotent_witness:
  "call_twice (target AssertChecks bar) (0::nat) = Inr ((789, 789), 0) \<and>
   call_twice (Inr \<circ> bar) (0::nat) = Inr ((456, 456), 0) \<and>
   call_twice (Inr \<circ> foo 123) (0::nat) = Inr ((123, 123), 0)"
  using calls_idempotent [of "0::nat" 0 123 "\<lparr>win32 = False, ndebug = False, bar_static = False, bar_build = False,
      foo_static = False, foo_build = False, target_static = False, target_build = False\<rparr>" bar]
  by simp

text \<open>
  C7. On an attribute-based platform (\<^verbatim>\<open>_WIN32\<close> not defined), for each library built for
  dynamic linkage, \<^verbatim>\<open><LIB>_DLL_EXPORT\<close> and \<^verbatim>\<open><LIB>_DLL_IMPORT\<close> both expand to the
  default-visibility attribute, so the owning build and the consuming build get the same
  \<^verbatim>\<open><LIB>_PUBLIC_API\<close>.
\<close>

theorem default_visibility_symmetric:
  assumes "\<not> win32 c"
  shows "(\<not> bar_static c \<longrightarrow>
            observe (macro_value ''BAR_DLL_EXPORT'') bar_h c = Inr (Some gnu_visibility_default) \<and>
            observe (macro_value ''BAR_DLL_IMPORT'') bar_h c = Inr (Some gnu_visibility_default) \<and>
            observe (macro_value ''BAR_PUBLIC_API'') bar_h (c\<lparr>bar_build := True\<rparr>) =
              observe (macro_value ''BAR_PUBLIC_API'') bar_h (c\<lparr>bar_build := False\<rparr>)) \<and>
         (\<not> foo_static c \<longrightarrow>
            observe (macro_value ''FOO_DLL_EXPORT'') foo_h c = Inr (Some gnu_visibility_default) \<and>
            observe (macro_value ''FOO_DLL_IMPORT'') foo_h c = Inr (Some gnu_visibility_default) \<and>
            observe (macro_value ''FOO_PUBLIC_API'') foo_h (c\<lparr>foo_build := True\<rparr>) =
              observe (macro_value ''FOO_PUBLIC_API'') foo_h (c\<lparr>foo_build := False\<rparr>)) \<and>
         (\<not> target_static c \<longrightarrow>
            observe (macro_value ''TARGET_DLL_EXPORT'') target_c c = Inr (Some gnu_visibility_default) \<and>
            observe (macro_value ''TARGET_DLL_IMPORT'') target_c c = Inr (Some gnu_visibility_default) \<and>
            observe (macro_value ''TARGET_PUBLIC_API'') target_c (c\<lparr>target_build := True\<rparr>) =
              observe (macro_value ''TARGET_PUBLIC_API'') target_c (c\<lparr>target_build := False\<rparr>))"
  using assms
  by (simp add: bar_h_values foo_h_values target_c_values dll_export_def dll_import_def
      export_attribute_def import_attribute_def)

theorem default_visibility_symmetric_witness:
  "observe (macro_value ''BAR_DLL_EXPORT'') bar_h
     \<lparr>win32 = False, ndebug = False, bar_static = False, bar_build = False,
      foo_static = False, foo_build = False, target_static = False, target_build = False\<rparr>
   = Inr (Some gnu_visibility_default) \<and>
   observe (macro_value ''BAR_DLL_IMPORT'') bar_h
     \<lparr>win32 = False, ndebug = False, bar_static = False, bar_build = False,
      foo_static = False, foo_build = False, target_static = False, target_build = False\<rparr>
   = Inr (Some gnu_visibility_default) \<and>
   observe (macro_value ''FOO_DLL_EXPORT'') foo_h
     \<lparr>win32 = False, ndebug = False, bar_static = False, bar_build = False,
      foo_static = False, foo_build = False, target_static = False, target_build = False\<rparr>
   = observe (macro_value ''FOO_DLL_IMPORT'') foo_h
     \<lparr>win32 = False, ndebug = False, bar_static = False, bar_build = False,
      foo_static = False, foo_build = False, target_static = False, target_build = False\<rparr> \<and>
   observe (macro_value ''TARGET_DLL_EXPORT'') target_c
     \<lparr>win32 = False, ndebug = False, bar_static = False, bar_build = False,
      foo_static = False, foo_build = False, target_static = False, target_build = False\<rparr>
   = observe (macro_value ''TARGET_DLL_IMPORT'') target_c
     \<lparr>win32 = False, ndebug = False, bar_static = False, bar_build = False,
      foo_static = False, foo_build = False, target_static = False, target_build = False\<rparr>"
  using default_visibility_symmetric
    [of "\<lparr>win32 = False, ndebug = False, bar_static = False, bar_build = False,
      foo_static = False, foo_build = False, target_static = False, target_build = False\<rparr>"]
  by simp

text \<open>
  C8. The computation of the visibility macro cannot fail. For each library and every
  configuration, preprocessing succeeds, \<^verbatim>\<open><LIB>_PUBLIC_API\<close> is defined, and it expands
  to one of three things: the export attribute of the platform (what lines 6 and 9 give
  \<^verbatim>\<open><LIB>_DLL_EXPORT\<close>), the import attribute of the platform (what lines 7 and 10 give
  \<^verbatim>\<open><LIB>_DLL_IMPORT\<close>), or nothing.
\<close>

theorem public_api_total:
  "(\<exists>a. observe (macro_value ''BAR_PUBLIC_API'') bar_h c = Inr (Some a) \<and>
        a \<in> {export_attribute (win32 c), import_attribute (win32 c), []}) \<and>
   (\<exists>a. observe (macro_value ''FOO_PUBLIC_API'') foo_h c = Inr (Some a) \<and>
        a \<in> {export_attribute (win32 c), import_attribute (win32 c), []}) \<and>
   (\<exists>a. observe (macro_value ''TARGET_PUBLIC_API'') target_c c = Inr (Some a) \<and>
        a \<in> {export_attribute (win32 c), import_attribute (win32 c), []})"
  by (simp add: bar_h_values foo_h_values target_c_values dll_export_def dll_import_def)

theorem public_api_total_witness:
  "\<exists>a. observe (macro_value ''TARGET_PUBLIC_API'') target_c
          \<lparr>win32 = True, ndebug = False, bar_static = False, bar_build = False,
      foo_static = False, foo_build = False, target_static = False, target_build = True\<rparr>
        = Inr (Some a) \<and>
       a \<in> {declspec_dllexport, declspec_dllimport, []}"
  using public_api_total
    [of "\<lparr>win32 = True, ndebug = False, bar_static = False, bar_build = False,
      foo_static = False, foo_build = False, target_static = False, target_build = True\<rparr>"]
  by (simp add: export_attribute_def import_attribute_def)

text \<open>
  C9. The assertion in \<^verbatim>\<open>target()\<close> is live under every configuration, with \<^verbatim>\<open>NDEBUG\<close>
  defined by the build or not: lines 1 and 2 of \<^verbatim>\<open>target.c\<close> remove \<^verbatim>\<open>NDEBUG\<close> and then
  include \<^verbatim>\<open>assert.h\<close>, which makes \<^verbatim>\<open>assert\<close> a check. So whenever the linked \<^verbatim>\<open>bar\<close>
  returns a value other than 456, the call ends the process, in release builds too.
  Line 1 is what does it: the file without it would follow \<^verbatim>\<open>NDEBUG\<close>, and with \<^verbatim>\<open>assert\<close>
  a no-op the function returns 789 whatever \<^verbatim>\<open>bar\<close> returns.
\<close>

theorem assertion_always_live:
  "observe assert_macro target_c c = Inr (Some AssertChecks) \<and>
   (\<forall>b (s::'s). fst (b s) \<noteq> 456 \<longrightarrow> run_target c b s = Inr (Inl AssertionFailed)) \<and>
   take 2 target_c = [Undef ''NDEBUG'', IncludeStd ''assert.h''] \<and>
   observe assert_macro (take 2 target_c) c = Inr (Some AssertChecks) \<and>
   observe assert_macro [IncludeStd ''assert.h''] c =
     Inr (Some (if ndebug c then AssertNoop else AssertChecks)) \<and>
   observe assert_macro (tl target_c) c =
     Inr (Some (if ndebug c then AssertNoop else AssertChecks)) \<and>
   (\<forall>b (s::'s). target AssertNoop b s = Inr (789, snd (b s)))"
  by (simp add: target_c_assert undef_then_assert_h assert_h_follows_ndebug without_undef
      target_without_check run_target_eq target_cases) (simp add: target_c_def)

theorem assertion_always_live_witness:
  "observe assert_macro target_c
     \<lparr>win32 = False, ndebug = True, bar_static = False, bar_build = False,
      foo_static = False, foo_build = False, target_static = False, target_build = True\<rparr>
   = Inr (Some AssertChecks) \<and>
   observe assert_macro [IncludeStd ''assert.h'']
     \<lparr>win32 = False, ndebug = True, bar_static = False, bar_build = False,
      foo_static = False, foo_build = False, target_static = False, target_build = True\<rparr>
   = Inr (Some AssertNoop) \<and>
   observe assert_macro (tl target_c)
     \<lparr>win32 = False, ndebug = True, bar_static = False, bar_build = False,
      foo_static = False, foo_build = False, target_static = False, target_build = True\<rparr>
   = Inr (Some AssertNoop) \<and>
   run_target \<lparr>win32 = False, ndebug = True, bar_static = False, bar_build = False,
      foo_static = False, foo_build = False, target_static = False, target_build = True\<rparr>
     (\<lambda>s. (457, s)) (0::nat) = Inr (Inl AssertionFailed)"
proof -
  note live = assertion_always_live
    [where 's = nat, of "\<lparr>win32 = False, ndebug = True, bar_static = False, bar_build = False,
      foo_static = False, foo_build = False, target_static = False, target_build = True\<rparr>"]
  from live have "\<forall>b s. fst (b s) \<noteq> 456 \<longrightarrow>
      run_target \<lparr>win32 = False, ndebug = True, bar_static = False, bar_build = False,
      foo_static = False, foo_build = False, target_static = False, target_build = True\<rparr>
        b (s::nat) = Inr (Inl AssertionFailed)"
    by simp
  from this [rule_format, of "\<lambda>s. (457, s)" 0]
  have "run_target \<lparr>win32 = False, ndebug = True, bar_static = False, bar_build = False,
      foo_static = False, foo_build = False, target_static = False, target_build = True\<rparr>
     (\<lambda>s. (457, s)) (0::nat) = Inr (Inl AssertionFailed)"
    by simp
  with live show ?thesis
    by simp
qed

text \<open>
  C10. Including \<^verbatim>\<open>bar.h\<close> or \<^verbatim>\<open>foo.h\<close> any number of times in a row, from any state of the
  preprocessor, gives the state (macro definitions and emitted lines) or the error that
  including it once gives, because of the include guard; so does including it again after
  any directives that do not remove the guard macro. From the initial state of any
  configuration the emitted text is the one declaration.
\<close>

theorem include_idempotent:
  "pp_directives (replicate (Suc n) (Include ''bar/bar.h'' bar_h)) st =
     pp_directive (Include ''bar/bar.h'' bar_h) st \<and>
   pp_directives (replicate (Suc n) (Include ''foo/foo.h'' foo_h)) st =
     pp_directive (Include ''foo/foo.h'' foo_h) st \<and>
   (''XMAKERS_BAR_H'' \<notin> set (undefs_list ds) \<longrightarrow>
      pp_directives (Include ''bar/bar.h'' bar_h # ds @ [Include ''bar/bar.h'' bar_h]) st =
      pp_directives (Include ''bar/bar.h'' bar_h # ds) st) \<and>
   (''XMAKERS_FOO_H'' \<notin> set (undefs_list ds) \<longrightarrow>
      pp_directives (Include ''foo/foo.h'' foo_h # ds @ [Include ''foo/foo.h'' foo_h]) st =
      pp_directives (Include ''foo/foo.h'' foo_h # ds) st) \<and>
   observe out_lines (replicate (Suc n) (Include ''bar/bar.h'' bar_h)) c =
     observe out_lines bar_h c \<and>
   observe out_lines (replicate (Suc n) (Include ''foo/foo.h'' foo_h)) c =
     observe out_lines foo_h c \<and>
   observe (\<lambda>st. length (out_lines st)) bar_h c = Inr 1 \<and>
   observe (\<lambda>st. length (out_lines st)) foo_h c = Inr 1"
proof -
  have bar: "pp_directives (replicate (Suc n) (Include ''bar/bar.h'' bar_h)) st =
     pp_directive (Include ''bar/bar.h'' bar_h) st" for st
    unfolding bar_h_def by (rule include_guard) simp
  have foo: "pp_directives (replicate (Suc n) (Include ''foo/foo.h'' foo_h)) st =
     pp_directive (Include ''foo/foo.h'' foo_h) st" for st
    unfolding foo_h_def by (rule include_guard) simp
  have bar_later: "''XMAKERS_BAR_H'' \<notin> set (undefs_list ds) \<longrightarrow>
      pp_directives (Include ''bar/bar.h'' bar_h # ds @ [Include ''bar/bar.h'' bar_h]) st =
      pp_directives (Include ''bar/bar.h'' bar_h # ds) st"
    unfolding bar_h_def by (intro impI include_guard_later) simp_all
  have foo_later: "''XMAKERS_FOO_H'' \<notin> set (undefs_list ds) \<longrightarrow>
      pp_directives (Include ''foo/foo.h'' foo_h # ds @ [Include ''foo/foo.h'' foo_h]) st =
      pp_directives (Include ''foo/foo.h'' foo_h # ds) st"
    unfolding foo_h_def by (intro impI include_guard_later) simp_all
  have observed: "observe out_lines (replicate (Suc n) (Include ''bar/bar.h'' bar_h)) c =
      observe out_lines bar_h c \<and>
    observe out_lines (replicate (Suc n) (Include ''foo/foo.h'' foo_h)) c =
      observe out_lines foo_h c \<and>
    observe (\<lambda>st. length (out_lines st)) bar_h c = Inr 1 \<and>
    observe (\<lambda>st. length (out_lines st)) foo_h c = Inr 1"
    unfolding observe_def preprocess_def bar foo
    by (simp add: preprocess_bar_h [unfolded preprocess_def]
        preprocess_foo_h [unfolded preprocess_def])
  from bar foo bar_later foo_later observed show ?thesis
    by blast
qed

theorem include_idempotent_witness:
  "observe out_lines
     (replicate 3 (Include ''bar/bar.h'' bar_h))
     \<lparr>win32 = False, ndebug = False, bar_static = False, bar_build = False,
      foo_static = False, foo_build = False, target_static = False, target_build = False\<rparr>
   = Inr [gnu_visibility_default @ [''int'', ''bar'', ''('', '')'', '';'']] \<and>
   pp_directives
     [Include ''bar/bar.h'' bar_h, Include ''foo/foo.h'' foo_h, Include ''bar/bar.h'' bar_h]
     (initial_state \<lparr>win32 = False, ndebug = False, bar_static = False, bar_build = False,
      foo_static = False, foo_build = False, target_static = False, target_build = False\<rparr>)
   = pp_directives
     [Include ''bar/bar.h'' bar_h, Include ''foo/foo.h'' foo_h]
     (initial_state \<lparr>win32 = False, ndebug = False, bar_static = False, bar_build = False,
      foo_static = False, foo_build = False, target_static = False, target_build = False\<rparr>)"
proof -
  have between: "''XMAKERS_BAR_H'' \<notin> set (undefs_list [Include ''foo/foo.h'' foo_h])"
    by (simp add: foo_h_def)
  from between include_idempotent
    [where n = 2 and ds = "[Include ''foo/foo.h'' foo_h]"
       and st = "initial_state \<lparr>win32 = False, ndebug = False, bar_static = False, bar_build = False,
      foo_static = False, foo_build = False, target_static = False, target_build = False\<rparr>"
       and c = "\<lparr>win32 = False, ndebug = False, bar_static = False, bar_build = False,
      foo_static = False, foo_build = False, target_static = False, target_build = False\<rparr>"]
  show ?thesis
    by (simp add: numeral_3_eq_3 bar_h_declaration dll_import_def import_attribute_def)
qed

end
